theory Spec2Isabelle
  imports Main
begin

section \<open>Strings\<close>

text \<open>
  A Python \<open>str\<close> is a sequence of code points and \<open>len\<close> counts code points. It is
  modelled as \<^typ>\<open>string\<close>, one \<^typ>\<open>char\<close> per code point, which covers the code
  points 0 to 255. On that range \<open>str.isspace\<close> holds for U+0009 to U+000D, U+001C to
  U+0020, U+0085 and U+00A0; \<open>str.split()\<close> and \<open>str.strip()\<close> use that set.
\<close>

definition isspace :: "char \<Rightarrow> bool" where
  "isspace c = (of_char c \<in> {9, 10, 11, 12, 13, 28, 29, 30, 31, 32, 133, 160 :: nat})"

text \<open>
  \<open>text.split()\<close>: the maximal runs of non-whitespace code points, in order. The first
  argument is the word being read.
\<close>

fun split_from :: "string \<Rightarrow> string \<Rightarrow> string list" where
  "split_from cur [] = (if cur = [] then [] else [cur])"
| "split_from cur (c # cs) =
     (if isspace c then (if cur = [] then split_from [] cs else cur # split_from [] cs)
      else split_from (cur @ [c]) cs)"

definition split :: "string \<Rightarrow> string list" where
  "split text = split_from [] text"

text \<open>\<open>' '.join(xs)\<close>.\<close>

fun join :: "string list \<Rightarrow> string" where
  "join [] = []"
| "join [x] = x"
| "join (x # y # ys) = x @ CHR '' '' # join (y # ys)"

text \<open>\<open>line.strip()\<close>: leading and trailing whitespace removed.\<close>

definition strip :: "string \<Rightarrow> string" where
  "strip s = rev (dropWhile isspace (rev (dropWhile isspace s)))"

text \<open>\<open>text.split('\n')\<close>: the pieces between line feeds; never the empty list.\<close>

fun split_nl_from :: "string \<Rightarrow> string \<Rightarrow> string list" where
  "split_nl_from cur [] = [cur]"
| "split_nl_from cur (c # cs) =
     (if c = CHR 0x0A then cur # split_nl_from [] cs else split_nl_from (cur @ [c]) cs)"

definition split_nl :: "string \<Rightarrow> string list" where
  "split_nl text = split_nl_from [] text"

section \<open>Paths and files\<close>

text \<open>
  A \<open>pathlib.Path\<close> by its parts: the components of its directory, and the stem and the
  suffix of its last component. \<open>p.name\<close> is stem and suffix together, and
  \<open>p.with_suffix(s)\<close> replaces the suffix.
\<close>

record pypath =
  parent :: "string list"
  stem :: string
  suffix :: string

definition name :: "pypath \<Rightarrow> string" where
  "name p = stem p @ suffix p"

definition with_suffix :: "pypath \<Rightarrow> string \<Rightarrow> pypath" where
  "with_suffix p s = p\<lparr>suffix := s\<rparr>"

text \<open>The file system: the content of every file that exists.\<close>

type_synonym files = "pypath \<rightharpoonup> string"

text \<open>\<open>p.unlink(missing_ok=True)\<close>.\<close>

definition unlink :: "pypath \<Rightarrow> files \<Rightarrow> files" where
  "unlink p fs = fs(p := None)"

section \<open>The processor and its configuration\<close>

text \<open>
  \<open>VideoProcessor\<close> reads its settings through \<open>self\<close>; the class gives
  \<open>MAX_CHUNK_TOKENS = 3000\<close> and \<open>OLLAMA_MODEL = "llama3.1:8b"\<close>, and an instance may
  override them. \<open>working_dir\<close> is the resolved directory given to the constructor, by
  its components.
\<close>

record VideoProcessor =
  working_dir :: "string list"
  MAX_CHUNK_TOKENS :: nat
  OLLAMA_MODEL :: string

definition VideoProcessor_init :: "string list \<Rightarrow> VideoProcessor" where
  "VideoProcessor_init working_directory =
     \<lparr>working_dir = working_directory, MAX_CHUNK_TOKENS = 3000,
      OLLAMA_MODEL = ''llama3.1:8b''\<rparr>"

definition questions_dir :: "VideoProcessor \<Rightarrow> string list" where
  "questions_dir self = working_dir self @ [''questions'']"

section \<open>Chunking\<close>

text \<open>
  The loop of \<open>chunk_text\<close> over \<open>words\<close>, with the statement after it: the arguments
  are \<open>chars_per_chunk\<close>, \<open>chunks\<close>, \<open>current_chunk\<close>, \<open>current_length\<close> and the words
  still to read.
\<close>

fun chunk_loop :: "nat \<Rightarrow> string list \<Rightarrow> string list \<Rightarrow> nat \<Rightarrow> string list \<Rightarrow> string list" where
  "chunk_loop chars_per_chunk chunks current_chunk current_length [] =
     (if current_chunk \<noteq> [] then chunks @ [join current_chunk] else chunks)"
| "chunk_loop chars_per_chunk chunks current_chunk current_length (word # words) =
     (let word_length = length word + 1 in
      if current_length + word_length > chars_per_chunk \<and> current_chunk \<noteq> []
      then chunk_loop chars_per_chunk (chunks @ [join current_chunk]) [word] word_length words
      else chunk_loop chars_per_chunk chunks (current_chunk @ [word])
             (current_length + word_length) words)"

definition chunk_text :: "VideoProcessor \<Rightarrow> string \<Rightarrow> string list" where
  "chunk_text self text =
     (let chars_per_chunk = MAX_CHUNK_TOKENS self * 4 in
      chunk_loop chars_per_chunk [] [] 0 (split text))"

section \<open>Values and exceptions\<close>

text \<open>
  The Python values that \<open>json.loads\<close> returns: \<open>None\<close>, booleans, numbers, strings,
  lists and dictionaries with string keys. No function here computes with a number, so
  a number is carried as its literal. A dictionary is the list of its items in insertion
  order, with distinct keys; the empty list is the empty dictionary \<open>{}\<close>.
\<close>

datatype json =
    JNull
  | JBool bool
  | JNumber string
  | JString string
  | JArray "json list"
  | JObject "(string \<times> json) list"

text \<open>
  The exceptions: \<open>Exception msg\<close> is any exception a collaborator raises (the model
  service, the recognizer, the audio export), the others are Python's own.
\<close>

datatype exn =
    Exception string
  | JSONDecodeError
  | KeyError json
  | TypeError
  | AttributeError

text \<open>\<open>d.get(key, default)\<close> on a dictionary.\<close>

definition dict_get :: "(string \<times> json) list \<Rightarrow> string \<Rightarrow> json \<Rightarrow> json" where
  "dict_get d key dflt = (case map_of d key of None \<Rightarrow> dflt | Some v \<Rightarrow> v)"

section \<open>The manual parser\<close>

text \<open>
  The loop of \<open>_parse_questions_manually\<close> over \<open>lines\<close>, with the statement after it:
  the arguments are \<open>questions\<close>, \<open>current_question\<close> (at first the empty dictionary,
  which is false as a condition) and the lines still to read.
\<close>

fun parse_lines :: "json list \<Rightarrow> (string \<times> json) list \<Rightarrow> string list \<Rightarrow> json list" where
  "parse_lines questions current_question [] =
     (if current_question \<noteq> [] then questions @ [JObject current_question] else questions)"
| "parse_lines questions current_question (raw # lines) =
     (let line = strip raw in
      if CHR ''?'' \<in> set line \<and> length line > 10
      then parse_lines
             (if current_question \<noteq> [] then questions @ [JObject current_question]
              else questions)
             [(''question'', JString line), (''speaker'', JString ''unknown''),
              (''type'', JString ''general'')]
             lines
      else parse_lines questions current_question lines)"

definition parse_questions_manually :: "string \<Rightarrow> json list" where
  "parse_questions_manually response_text = parse_lines [] [] (split_nl response_text)"

section \<open>Question generation\<close>

text \<open>\<open>prompt.format(text=text_chunk)\<close>: the template with the chunk in place of \<open>{text}\<close>.\<close>

definition prompt_head :: string where
  \<open>prompt_head =
     ''\<newline>'' @
     ''Analyze the following transcript and extract all questions that were asked.\<newline>'' @
     ''For each question, identify:\<newline>'' @
     ''1. The exact question text\<newline>'' @
     ''2. Whether it was asked by an interviewer or interviewee\<newline>'' @
     ''3. The type of question (technical, behavioral, general)\<newline>'' @
     ''\<newline>'' @
     ''Return the result as a JSON array where each item has:\<newline>'' @
     ''- "question": the exact question text\<newline>'' @
     ''- "speaker": "interviewer" or "interviewee" \<newline>'' @
     ''- "type": "technical", "behavioral", or "general"\<newline>'' @
     ''\<newline>'' @
     ''Transcript:\<newline>''\<close>

definition prompt_tail :: string where
  "prompt_tail =
     ''\<newline>'' @
     ''\<newline>'' @
     ''Please analyze both Russian and English text appropriately.\<newline>''"

definition prompt_format :: "string \<Rightarrow> string" where
  "prompt_format text_chunk = prompt_head @ text_chunk @ prompt_tail"

text \<open>
  \<open>re.search(r'\[.*\]', response_text, re.DOTALL)\<close> and \<open>.group()\<close>: the span from the
  first \<open>[\<close> to the last \<open>]\<close> after it, when there is one.
\<close>

definition json_match :: "string \<Rightarrow> string option" where
  "json_match response_text =
     (let rest = dropWhile (\<lambda>c. c \<noteq> CHR ''['') response_text in
      if CHR '']'' \<in> set rest
      then Some (rev (dropWhile (\<lambda>c. c \<noteq> CHR '']'') (rev rest)))
      else None)"

text \<open>
  The two collaborators of \<open>generate_questions_from_chunk\<close> are parameters:
  \<open>ollama_generate model prompt\<close> is \<open>ollama.generate(model=..., prompt=...,
  stream=False)['response']\<close>, the generated text or the exception raised, and
  \<open>json_loads\<close> is \<open>json.loads\<close>, the parsed value or the exception raised.

  \<open>generate_body\<close> is the body of the \<open>try\<close> statement; the function itself answers
  every exception of the body with the empty list.
\<close>

definition generate_body ::
  "VideoProcessor \<Rightarrow> (string \<Rightarrow> string \<Rightarrow> exn + string) \<Rightarrow> (string \<Rightarrow> exn + json) \<Rightarrow>
   string \<Rightarrow> exn + json list" where
  "generate_body self ollama_generate json_loads text_chunk =
     (case ollama_generate (OLLAMA_MODEL self) (prompt_format text_chunk) of
        Inl e \<Rightarrow> Inl e
      | Inr response \<Rightarrow>
          (let response_text = strip response in
           case json_match response_text of
             Some json_text \<Rightarrow>
               (case json_loads json_text of
                  Inr questions \<Rightarrow>
                    Inr (case questions of JArray qs \<Rightarrow> qs | _ \<Rightarrow> [])
                | Inl JSONDecodeError \<Rightarrow> Inr []
                | Inl e \<Rightarrow> Inl e)
           | None \<Rightarrow> Inr (parse_questions_manually response_text)))"

definition generate_questions_from_chunk ::
  "VideoProcessor \<Rightarrow> (string \<Rightarrow> string \<Rightarrow> exn + string) \<Rightarrow> (string \<Rightarrow> exn + json) \<Rightarrow>
   string \<Rightarrow> exn + json list" where
  "generate_questions_from_chunk self ollama_generate json_loads text_chunk =
     (case generate_body self ollama_generate json_loads text_chunk of
        Inl e \<Rightarrow> Inr []
      | Inr questions \<Rightarrow> Inr questions)"

text \<open>
  The loop of \<open>generate_questions\<close> over the chunks: \<open>all_questions\<close> is extended by
  the questions of each chunk; an exception of a call would leave the loop.
\<close>

fun questions_loop ::
  "(string \<Rightarrow> exn + json list) \<Rightarrow> json list \<Rightarrow> string list \<Rightarrow> exn + json list" where
  "questions_loop from_chunk all_questions [] = Inr all_questions"
| "questions_loop from_chunk all_questions (chunk # chunks) =
     (case from_chunk chunk of
        Inl e \<Rightarrow> Inl e
      | Inr questions \<Rightarrow> questions_loop from_chunk (all_questions @ questions) chunks)"

definition generate_questions ::
  "VideoProcessor \<Rightarrow> (string \<Rightarrow> string \<Rightarrow> exn + string) \<Rightarrow> (string \<Rightarrow> exn + json) \<Rightarrow>
   string \<Rightarrow> exn + json list" where
  "generate_questions self ollama_generate json_loads transcript =
     questions_loop (generate_questions_from_chunk self ollama_generate json_loads) []
       (chunk_text self transcript)"

section \<open>The report\<close>

text \<open>
  \<open>organized_questions\<close>: a dictionary with five fixed keys, in this order. The two
  groupings are dictionaries from a label to the list of its questions.
\<close>

record report =
  video_name :: string
  total_questions :: nat
  by_speaker :: "(string \<times> json list) list"
  by_type :: "(string \<times> json list) list"
  all_questions :: "json list"

text \<open>
  \<open>buckets[key].append(question)\<close>: the subscript raises \<open>KeyError\<close> for a key the
  dictionary does not have, and \<open>TypeError\<close> for a list or a dictionary, which cannot be
  a key; a value that is not a string equals no key.
\<close>

definition bucket_append ::
  "(string \<times> json list) list \<Rightarrow> json \<Rightarrow> json \<Rightarrow> exn + (string \<times> json list) list" where
  "bucket_append buckets key question =
     (case key of
        JString k \<Rightarrow>
          (if k \<in> fst ` set buckets
           then Inr (map (\<lambda>(k', qs). if k' = k then (k', qs @ [question]) else (k', qs)) buckets)
           else Inl (KeyError key))
      | JArray _ \<Rightarrow> Inl TypeError
      | JObject _ \<Rightarrow> Inl TypeError
      | _ \<Rightarrow> Inl (KeyError key))"

text \<open>
  The loop of \<open>save_questions\<close> over \<open>questions\<close>. \<open>question.get\<close> exists on a
  dictionary only; any other value raises \<open>AttributeError\<close>.
\<close>

fun categorize :: "report \<Rightarrow> json list \<Rightarrow> exn + report" where
  "categorize organized_questions [] = Inr organized_questions"
| "categorize organized_questions (question # questions) =
     (case question of
        JObject d \<Rightarrow>
          (let speaker = dict_get d ''speaker'' (JString ''unknown'');
               question_type = dict_get d ''type'' (JString ''general'')
           in case bucket_append (by_speaker organized_questions) speaker question of
                Inl e \<Rightarrow> Inl e
              | Inr speakers \<Rightarrow>
                  (case bucket_append (by_type organized_questions) question_type question of
                     Inl e \<Rightarrow> Inl e
                   | Inr types \<Rightarrow>
                       categorize
                         (organized_questions\<lparr>by_speaker := speakers, by_type := types\<rparr>)
                         questions))
      | _ \<Rightarrow> Inl AttributeError)"

text \<open>The report of \<open>save_questions\<close>, before it is written.\<close>

definition organize_questions :: "pypath \<Rightarrow> json list \<Rightarrow> exn + report" where
  "organize_questions video_path questions =
     categorize
       \<lparr>video_name = name video_path,
        total_questions = length questions,
        by_speaker = [(''interviewer'', []), (''interviewee'', []), (''unknown'', [])],
        by_type = [(''technical'', []), (''behavioral'', []), (''general'', [])],
        all_questions = questions\<rparr>
       questions"

text \<open>
  \<open>save_questions\<close>: the file is opened and written after the loop. \<open>json_dump\<close> is
  \<open>json.dump(..., ensure_ascii=False, indent=2)\<close>, the text written for a report.
\<close>

definition save_questions ::
  "(report \<Rightarrow> string) \<Rightarrow> VideoProcessor \<Rightarrow> pypath \<Rightarrow> json list \<Rightarrow> files \<Rightarrow>
   (exn + pypath) \<times> files" where
  "save_questions json_dump self video_path questions fs =
     (let questions_file =
            \<lparr>parent = questions_dir self, stem = stem video_path @ ''_questions'',
             suffix = ''.json''\<rparr>
      in case organize_questions video_path questions of
           Inl e \<Rightarrow> (Inl e, fs)
         | Inr organized_questions \<Rightarrow>
             (Inr questions_file, fs(questions_file \<mapsto> json_dump organized_questions)))"

section \<open>Transcription\<close>

text \<open>
  The collaborators of \<open>transcribe_video\<close> are parameters. \<open>write_audiofile video_path
  audio_path\<close> is the \<open>with VideoFileClip(...)\<close> block, which exports the audio track to
  \<open>audio_path\<close>: it returns or raises, and leaves a file system behind.
  \<open>whisper_transcribe audio_path\<close> is \<open>self.whisper_model.transcribe(...)['text']\<close>, the
  recognized text or the exception raised. The handler logs and raises the exception
  again.
\<close>

definition transcribe_video ::
  "(pypath \<Rightarrow> pypath \<Rightarrow> files \<Rightarrow> (exn + unit) \<times> files) \<Rightarrow> (pypath \<Rightarrow> files \<Rightarrow> exn + string) \<Rightarrow>
   pypath \<Rightarrow> files \<Rightarrow> (exn + string) \<times> files" where
  "transcribe_video write_audiofile whisper_transcribe video_path fs =
     (let audio_path = with_suffix video_path ''.wav'' in
      case write_audiofile video_path audio_path fs of
        (Inl e, fs') \<Rightarrow> (Inl e, fs')
      | (Inr _, fs') \<Rightarrow>
          (case whisper_transcribe audio_path fs' of
             Inl e \<Rightarrow> (Inl e, fs')
           | Inr text \<Rightarrow> (Inr (strip text), unlink audio_path fs')))"

section \<open>Auxiliary notions for the proofs\<close>

text \<open>A processor with a budget of eight characters, for examples.\<close>

definition small_processor :: VideoProcessor where
  "small_processor = (VideoProcessor_init [''videos''])\<lparr>MAX_CHUNK_TOKENS := 2\<rparr>"


text \<open>A word: non-empty and free of whitespace, as \<open>split\<close> produces them.\<close>

definition is_word :: "string \<Rightarrow> bool" where
  "is_word w = (w \<noteq> [] \<and> (\<forall>c \<in> set w. \<not> isspace c))"


text \<open>
  The loop of \<open>chunk_text\<close> with every chunk kept as its list of words, before
  \<open>' '.join\<close>.
\<close>

fun chunk_groups ::
  "nat \<Rightarrow> string list list \<Rightarrow> string list \<Rightarrow> nat \<Rightarrow> string list \<Rightarrow> string list list" where
  "chunk_groups b gs cur len [] = (if cur \<noteq> [] then gs @ [cur] else gs)"
| "chunk_groups b gs cur len (w # ws) =
     (if len + (length w + 1) > b \<and> cur \<noteq> []
      then chunk_groups b (gs @ [cur]) [w] (length w + 1) ws
      else chunk_groups b gs (cur @ [w]) (len + (length w + 1)) ws)"


text \<open>
  A chunk fits the budget when its words with one separator each stay within it, or when
  it is a single word.
\<close>

definition fits :: "nat \<Rightarrow> string list \<Rightarrow> bool" where
  "fits b g = (length g = 1 \<or> (\<Sum>w\<leftarrow>g. length w + 1) \<le> b)"

text \<open>
  The label under which \<open>save_questions\<close> files a question: the string that
  \<open>question.get(key, dflt)\<close> gives, if the question is a dictionary and the value a
  string.
\<close>

definition field_label :: "string \<Rightarrow> string \<Rightarrow> json \<Rightarrow> string option" where
  "field_label key dflt question =
     (case question of
        JObject d \<Rightarrow> (case dict_get d key (JString dflt) of JString k \<Rightarrow> Some k | _ \<Rightarrow> None)
      | _ \<Rightarrow> None)"

definition speaker_label :: "json \<Rightarrow> string option" where
  "speaker_label = field_label ''speaker'' ''unknown''"

definition type_label :: "json \<Rightarrow> string option" where
  "type_label = field_label ''type'' ''general''"

text \<open>Buckets after filing the questions \<open>qs\<close> by their labels.\<close>

definition grow :: "(json \<Rightarrow> string option) \<Rightarrow> json list \<Rightarrow> (string \<times> json list) list \<Rightarrow> (string \<times> json list) list" where
  "grow label qs buckets = map (\<lambda>(k, b). (k, b @ filter (\<lambda>q. label q = Some k) qs)) buckets"


section \<open>Examples\<close>

definition example_video :: pypath where
  "example_video = \<lparr>parent = [''videos''], stem = ''interview'', suffix = ''.mp4''\<rparr>"

text \<open>A stand-in for \<open>json.dump\<close> in examples: it writes the video name only.\<close>

definition example_dump :: "report \<Rightarrow> string" where
  "example_dump r = video_name r"

definition complete_question :: json where
  "complete_question =
     JObject [(''question'', JString ''What is a monad?''), (''speaker'', JString ''interviewer''),
              (''type'', JString ''technical'')]"

definition bare_question :: json where
  "bare_question = JObject [(''question'', JString ''Why?'')]"

definition invented_question :: json where
  "invented_question =
     JObject [(''question'', JString ''Why?''), (''speaker'', JString ''candidate''),
              (''type'', JString ''general'')]"

definition bare_response :: string where
  \<open>bare_response = ''[{"question": "Why?"}]''\<close>

definition loads_bare :: "string \<Rightarrow> exn + json" where
  "loads_bare s = (if s = bare_response then Inr (JArray [bare_question]) else Inl JSONDecodeError)"

definition prose_response :: string where
  "prose_response =
     ''Questions [from the transcript]:\<newline>What is your programming experience?''"

definition failing_on :: "string \<Rightarrow> string \<Rightarrow> string \<Rightarrow> exn + string" where
  "failing_on chunk model prompt =
     (if prompt = prompt_format chunk then Inl (Exception ''timed out'')
      else Inr ''Is this a question?'')"

section \<open>Properties of chunking\<close>

lemma join_Cons: "join (x # xs) = (if xs = [] then x else x @ CHR '' '' # join xs)"
  by (cases xs) simp_all

lemma join_append:
  "xs \<noteq> [] \<Longrightarrow> ys \<noteq> [] \<Longrightarrow> join (xs @ ys) = join xs @ CHR '' '' # join ys"
proof (induction xs)
  case Nil
  then show ?case by simp
next
  case (Cons x xs)
  then show ?case by (cases "xs = []") (simp_all add: join_Cons)
qed

lemma length_join:
  "ws \<noteq> [] \<Longrightarrow> Suc (length (join ws)) = (\<Sum>w\<leftarrow>ws. length w + 1)"
proof (induction ws)
  case Nil
  then show ?case by simp
next
  case (Cons w ws)
  then show ?case by (cases "ws = []") (simp_all add: join_Cons)
qed

lemma split_from_words:
  "\<forall>c \<in> set cur. \<not> isspace c \<Longrightarrow> \<forall>w \<in> set (split_from cur cs). is_word w"
proof (induction cs arbitrary: cur)
  case Nil
  then show ?case by (simp add: is_word_def)
next
  case (Cons c cs)
  show ?case
  proof (cases "isspace c")
    case True
    have "\<forall>w \<in> set (split_from [] cs). is_word w"
      by (rule Cons.IH) simp
    moreover have "cur \<noteq> [] \<Longrightarrow> is_word cur"
      using Cons.prems by (simp add: is_word_def)
    ultimately show ?thesis using True by simp
  next
    case False
    have "\<forall>w \<in> set (split_from (cur @ [c]) cs). is_word w"
      using Cons.prems False by (intro Cons.IH) simp
    then show ?thesis using False by simp
  qed
qed

lemma split_words: "\<forall>w \<in> set (split s). is_word w"
  using split_from_words [of "[]" s] by (simp add: split_def)

lemma split_from_run:
  "\<forall>c \<in> set w. \<not> isspace c \<Longrightarrow> split_from cur (w @ rest) = split_from (cur @ w) rest"
  by (induction w arbitrary: cur) auto

lemma isspace_space: "isspace (CHR '' '')"
  by (simp add: isspace_def)

lemma split_join: "\<forall>w \<in> set ws. is_word w \<Longrightarrow> split (join ws) = ws"
proof (induction ws rule: join.induct)
  case 1
  then show ?case by (simp add: split_def)
next
  case (2 x)
  then show ?case
    using split_from_run [of x "[]" "[]"] by (simp add: split_def is_word_def)
next
  case (3 x y ys)
  then have "split (join (y # ys)) = y # ys" by simp
  moreover from 3 have "x \<noteq> []" "\<forall>c \<in> set x. \<not> isspace c" by (simp_all add: is_word_def)
  ultimately show ?case
    using split_from_run [of x "[]" "CHR '' '' # join (y # ys)"]
    by (simp add: split_def isspace_space)
qed

lemma split_empty_iff: "split_from cur cs = [] \<longleftrightarrow> cur = [] \<and> (\<forall>c \<in> set cs. isspace c)"
  by (induction cur cs rule: split_from.induct) auto

lemma chunk_loop_groups:
  "chunk_loop b (map join gs) cur len ws = map join (chunk_groups b gs cur len ws)"
proof (induction ws arbitrary: gs cur len)
  case Nil
  then show ?case by simp
next
  case (Cons w ws)
  show ?case
    using Cons.IH [of "gs @ [cur]" "[w]" "length w + 1"]
      Cons.IH [of gs "cur @ [w]" "len + (length w + 1)"]
    by (simp add: Let_def)
qed

lemma concat_chunk_groups:
  "concat (chunk_groups b gs cur len ws) = concat gs @ cur @ ws"
  by (induction ws arbitrary: gs cur len) auto

lemma chunk_groups_nonempty:
  "\<forall>g \<in> set gs. g \<noteq> [] \<Longrightarrow> \<forall>g \<in> set (chunk_groups b gs cur len ws). g \<noteq> []"
proof (induction ws arbitrary: gs cur len)
  case Nil
  then show ?case by auto
next
  case (Cons w ws)
  show ?case
    using Cons.IH [of "gs @ [cur]" "[w]" "length w + 1"]
      Cons.IH [of gs "cur @ [w]" "len + (length w + 1)"] Cons.prems
    by simp
qed


lemma chunk_groups_fits:
  "\<forall>g \<in> set gs. fits b g \<Longrightarrow> cur = [] \<or> fits b cur \<Longrightarrow> len = (\<Sum>w\<leftarrow>cur. length w + 1)
   \<Longrightarrow> \<forall>g \<in> set (chunk_groups b gs cur len ws). fits b g"
proof (induction ws arbitrary: gs cur len)
  case Nil
  then show ?case by auto
next
  case (Cons w ws)
  show ?case
  proof (cases "len + (length w + 1) > b \<and> cur \<noteq> []")
    case True
    have "\<forall>g\<in>set (chunk_groups b (gs @ [cur]) [w] (length w + 1) ws). fits b g"
    proof (rule Cons.IH)
      show "\<forall>g\<in>set (gs @ [cur]). fits b g" using Cons.prems True by simp
      show "[w] = [] \<or> fits b [w]" by (simp add: fits_def)
      show "length w + 1 = (\<Sum>w\<leftarrow>[w]. length w + 1)" by simp
    qed
    with True show ?thesis by simp
  next
    case False
    have "\<forall>g\<in>set (chunk_groups b gs (cur @ [w]) (len + (length w + 1)) ws). fits b g"
    proof (rule Cons.IH)
      show "\<forall>g\<in>set gs. fits b g" using Cons.prems by simp
      show "cur @ [w] = [] \<or> fits b (cur @ [w])"
        using Cons.prems(3) False by (cases "cur = []") (simp_all add: fits_def)
      show "len + (length w + 1) = (\<Sum>w\<leftarrow>cur @ [w]. length w + 1)"
        using Cons.prems(3) by simp
    qed
    moreover have "chunk_groups b gs cur len (w # ws) =
        chunk_groups b gs (cur @ [w]) (len + (length w + 1)) ws"
      using False by auto
    ultimately show ?thesis by simp
  qed
qed

lemma chunk_groups_all_fit:
  "len + (\<Sum>w\<leftarrow>ws. length w + 1) \<le> b \<Longrightarrow>
   chunk_groups b gs cur len ws = (if cur @ ws = [] then gs else gs @ [cur @ ws])"
proof (induction ws arbitrary: cur len)
  case Nil
  then show ?case by simp
next
  case (Cons w ws)
  have "chunk_groups b gs (cur @ [w]) (len + (length w + 1)) ws =
        (if (cur @ [w]) @ ws = [] then gs else gs @ [(cur @ [w]) @ ws])"
    using Cons.prems by (intro Cons.IH) simp
  moreover have "\<not> len + (length w + 1) > b" using Cons.prems by simp
  ultimately show ?case by simp
qed

lemma fits_long_single:
  assumes "fits b g" "w \<in> set g" "b \<le> length w"
  shows "g = [w]"
proof -
  have "length w + 1 \<le> (\<Sum>w\<leftarrow>g. length w + 1)"
    using assms(2) by (induction g) auto
  with assms(1,3) have "length g = 1" by (simp add: fits_def)
  with assms(2) show ?thesis by (cases g) auto
qed

lemma fits_join_long:
  assumes "fits b g" "g \<noteq> []" "b \<le> length (join g)"
  shows "\<exists>w. g = [w]"
proof -
  from assms(2,3) length_join [of g] have "\<not> (\<Sum>w\<leftarrow>g. length w + 1) \<le> b" by simp
  with assms(1) have "length g = 1" by (simp add: fits_def)
  then show ?thesis by (cases g) auto
qed

lemma filter_long_group:
  assumes "fits b g" "g \<noteq> []"
  shows "filter (\<lambda>w. b < length w) g = (if b < length (join g) then [join g] else [])"
proof (cases "\<exists>w \<in> set g. b < length w")
  case True
  then obtain w where w: "w \<in> set g" "b < length w" by blast
  with assms(1) have "g = [w]" using fits_long_single [of b g w] by simp
  with w show ?thesis by simp
next
  case False
  then have none: "filter (\<lambda>w. b < length w) g = []" by (simp add: filter_empty_conv)
  have "\<not> b < length (join g)"
  proof
    assume long: "b < length (join g)"
    with assms obtain w where "g = [w]" using fits_join_long [of b g] by auto
    with long False show False by simp
  qed
  with none show ?thesis by simp
qed

lemma filter_long_groups:
  "\<forall>g \<in> set gs. fits b g \<and> g \<noteq> [] \<Longrightarrow>
   filter (\<lambda>c. b < length c) (map join gs) = filter (\<lambda>w. b < length w) (concat gs)"
proof (induction gs)
  case Nil
  then show ?case by simp
next
  case (Cons g gs)
  then have "fits b g" "g \<noteq> []" by simp_all
  from filter_long_group [OF this] Cons show ?case by simp
qed

lemma chunk_text_groups:
  "chunk_text self s = map join (chunk_groups (MAX_CHUNK_TOKENS self * 4) [] [] 0 (split s))"
  using chunk_loop_groups [of "MAX_CHUNK_TOKENS self * 4" "[]" "[]" 0 "split s"]
  by (simp add: chunk_text_def)

lemma join_map_join:
  "\<forall>g \<in> set gs. g \<noteq> [] \<Longrightarrow> join (map join gs) = join (concat gs)"
proof (induction gs)
  case Nil
  then show ?case by simp
next
  case (Cons g gs)
  show ?case
  proof (cases "gs = []")
    case True
    then show ?thesis by simp
  next
    case False
    with Cons.prems have "concat gs \<noteq> []" "g \<noteq> []" by auto
    with Cons False show ?thesis by (simp add: join_Cons join_append)
  qed
qed

lemma concat_split_join:
  "\<forall>g \<in> set gs. \<forall>w \<in> set g. is_word w \<Longrightarrow> concat (map split (map join gs)) = concat gs"
  by (induction gs) (simp_all add: split_join)

lemma chunk_groups_text:
  fixes self s
  defines "gs \<equiv> chunk_groups (MAX_CHUNK_TOKENS self * 4) [] [] 0 (split s)"
  shows "concat gs = split s" and "\<forall>g \<in> set gs. g \<noteq> []"
    and "\<forall>g \<in> set gs. fits (MAX_CHUNK_TOKENS self * 4) g"
    and "\<forall>g \<in> set gs. \<forall>w \<in> set g. is_word w"
proof -
  show c: "concat gs = split s" by (simp add: gs_def concat_chunk_groups)
  show "\<forall>g \<in> set gs. g \<noteq> []"
    unfolding gs_def by (rule chunk_groups_nonempty) simp
  show "\<forall>g \<in> set gs. fits (MAX_CHUNK_TOKENS self * 4) g"
    unfolding gs_def by (rule chunk_groups_fits) simp_all
  have "\<forall>w \<in> set (concat gs). is_word w" using split_words [of s] by (simp add: c)
  then show "\<forall>g \<in> set gs. \<forall>w \<in> set g. is_word w" by auto
qed

text \<open>
  Claim C1 (chunking coverage). For every input string, the chunks of \<open>chunk_text\<close>
  rejoined with single spaces are the words of the input rejoined with single spaces;
  splitting that text again gives the words of the input; and the words of the chunks,
  chunk after chunk, are the words of the input: none lost, duplicated or reordered.
\<close>

theorem chunk_text_coverage:
  "join (chunk_text self s) = join (split s) \<and>
   split (join (chunk_text self s)) = split s \<and>
   concat (map split (chunk_text self s)) = split s"
proof -
  define gs where "gs = chunk_groups (MAX_CHUNK_TOKENS self * 4) [] [] 0 (split s)"
  have ct: "chunk_text self s = map join gs" by (simp add: gs_def chunk_text_groups)
  have c: "concat gs = split s" and ne: "\<forall>g \<in> set gs. g \<noteq> []"
    and w: "\<forall>g \<in> set gs. \<forall>w \<in> set g. is_word w"
    using chunk_groups_text [of self s] by (simp_all add: gs_def)
  have 1: "join (chunk_text self s) = join (split s)"
    using join_map_join [OF ne] by (simp add: ct c)
  have 2: "split (join (chunk_text self s)) = split s"
    using split_join [OF split_words, of s] by (simp add: 1)
  have 3: "concat (map split (chunk_text self s)) = split s"
    using concat_split_join [OF w] by (simp add: ct c)
  from 1 2 3 show ?thesis by simp
qed

text \<open>
  Claim C6 (chunk size bound). Every chunk of \<open>chunk_text\<close> has at most
  \<open>MAX_CHUNK_TOKENS * 4\<close> characters, or it is one single word of the input, whole. The
  chunks longer than the budget are exactly the words longer than the budget, in the
  order and number in which the input has them: such a word is never dropped, never
  split and never shares its chunk.
\<close>

theorem chunk_text_size_bound:
  "(\<forall>c \<in> set (chunk_text self s).
      length c \<le> MAX_CHUNK_TOKENS self * 4 \<or> (split c = [c] \<and> c \<in> set (split s))) \<and>
   filter (\<lambda>c. MAX_CHUNK_TOKENS self * 4 < length c) (chunk_text self s) =
   filter (\<lambda>w. MAX_CHUNK_TOKENS self * 4 < length w) (split s)"
proof -
  define b where "b = MAX_CHUNK_TOKENS self * 4"
  define gs where "gs = chunk_groups b [] [] 0 (split s)"
  have ct: "chunk_text self s = map join gs" by (simp add: gs_def b_def chunk_text_groups)
  have c: "concat gs = split s" and ne: "\<forall>g \<in> set gs. g \<noteq> []"
    and f: "\<forall>g \<in> set gs. fits b g"
    and w: "\<forall>g \<in> set gs. \<forall>w \<in> set g. is_word w"
    using chunk_groups_text [of self s] by (simp_all add: gs_def b_def)
  have "length (join g) \<le> b \<or> (split (join g) = [join g] \<and> join g \<in> set (split s))"
    if g: "g \<in> set gs" for g
  proof (cases "length (join g) \<le> b")
    case True
    then show ?thesis by simp
  next
    case False
    with g f ne obtain x where x: "g = [x]" using fits_join_long [of b g] by auto
    with g have "[x] \<in> set gs" by simp
    then have "x \<in> set (concat gs)" by force
    moreover from x g w have "is_word x" by auto
    ultimately show ?thesis using split_join [of "[x]"] by (simp add: x c)
  qed
  then have 1: "\<forall>c \<in> set (chunk_text self s).
      length c \<le> b \<or> (split c = [c] \<and> c \<in> set (split s))"
    by (auto simp: ct)
  have 2: "filter (\<lambda>c. b < length c) (chunk_text self s) = filter (\<lambda>w. b < length w) (split s)"
    using filter_long_groups [of gs b] f ne by (simp add: ct c)
  from 1 2 show ?thesis by (simp add: b_def)
qed

lemma split_Nil_iff: "split s = [] \<longleftrightarrow> (\<forall>c \<in> set s. isspace c)"
  by (simp add: split_def split_empty_iff)

text \<open>
  Claim C7 (chunking boundary cases). For an empty or whitespace-only string
  \<open>chunk_text\<close> returns the empty chunk list. For a text with at least one word (the
  texts the first case leaves) whose whitespace-normalized form is shorter than the
  budget, it returns exactly one chunk, the whitespace-normalized input.
\<close>

theorem chunk_text_boundary:
  "((\<forall>c \<in> set s. isspace c) \<longrightarrow> chunk_text self s = []) \<and>
   ((\<exists>c \<in> set s. \<not> isspace c) \<and> length (join (split s)) < MAX_CHUNK_TOKENS self * 4 \<longrightarrow>
      chunk_text self s = [join (split s)])"
proof (intro conjI impI)
  assume "\<forall>c \<in> set s. isspace c"
  then have "split s = []" by (simp add: split_Nil_iff)
  then show "chunk_text self s = []" by (simp add: chunk_text_def)
next
  assume a: "(\<exists>c \<in> set s. \<not> isspace c) \<and> length (join (split s)) < MAX_CHUNK_TOKENS self * 4"
  then have ne: "split s \<noteq> []" by (simp add: split_Nil_iff)
  with a length_join [of "split s"]
  have "0 + (\<Sum>w\<leftarrow>split s. length w + 1) \<le> MAX_CHUNK_TOKENS self * 4" by simp
  from chunk_groups_all_fit [OF this, of "[]" "[]"] ne
  show "chunk_text self s = [join (split s)]" by (simp add: chunk_text_groups)
qed


theorem chunk_text_coverage_witness:
  "join (chunk_text small_processor ''  ab cd  efghijklmno p q rstuv '') =
     ''ab cd efghijklmno p q rstuv'' \<and>
   split (join (chunk_text small_processor ''  ab cd  efghijklmno p q rstuv '')) =
     [''ab'', ''cd'', ''efghijklmno'', ''p'', ''q'', ''rstuv'']"
  using chunk_text_coverage [of "small_processor"
      "''  ab cd  efghijklmno p q rstuv ''"]
  by (simp add: split_def isspace_def)

theorem chunk_text_size_bound_witness:
  "chunk_text small_processor ''  ab cd  efghijklmno p q rstuv '' =
     [''ab cd'', ''efghijklmno'', ''p q'', ''rstuv''] \<and>
   length ''ab cd'' \<le> MAX_CHUNK_TOKENS small_processor * 4 \<and>
   split ''efghijklmno'' = [''efghijklmno''] \<and>
   ''efghijklmno'' \<in> set (split ''  ab cd  efghijklmno p q rstuv '') \<and>
   filter (\<lambda>c. 8 < length c) [''ab cd'', ''efghijklmno'', ''p q'', ''rstuv''] = [''efghijklmno'']"
proof -
  have ct: "chunk_text small_processor ''  ab cd  efghijklmno p q rstuv '' =
     [''ab cd'', ''efghijklmno'', ''p q'', ''rstuv'']"
    by (simp add: chunk_text_def split_def isspace_def small_processor_def)
  show ?thesis
    using chunk_text_size_bound [of "small_processor"
      "''  ab cd  efghijklmno p q rstuv ''"]
    by (simp add: ct) (simp add: small_processor_def)
qed

theorem chunk_text_boundary_witness:
  "list_all isspace '' '' \<and> chunk_text (VideoProcessor_init [''videos'']) '' '' = [] \<and>
   (\<exists>c \<in> set ''  hello   world ''. \<not> isspace c) \<and>
   length (join (split ''  hello   world '')) < MAX_CHUNK_TOKENS (VideoProcessor_init [''videos'']) * 4 \<and>
   chunk_text (VideoProcessor_init [''videos'']) ''  hello   world '' = [''hello world'']"
proof -
  have h1: "\<forall>c \<in> set '' ''. isspace c" by (simp add: isspace_def)
  have sp: "split ''  hello   world '' = [''hello'', ''world'']"
    by (simp add: split_def isspace_def)
  have h2: "\<exists>c \<in> set ''  hello   world ''. \<not> isspace c" by (simp add: isspace_def)
  have h3: "length (join (split ''  hello   world '')) < MAX_CHUNK_TOKENS (VideoProcessor_init [''videos'']) * 4"
    by (simp add: sp VideoProcessor_init_def)
  from chunk_text_boundary [of "'' ''" "VideoProcessor_init [''videos'']"]
    chunk_text_boundary [of "''  hello   world ''" "VideoProcessor_init [''videos'']"] h1 h2 h3
  show ?thesis by (simp add: sp)
qed

section \<open>Properties of parsing, generation and the report\<close>

lemma parse_lines_eq:
  "parse_lines questions current_question lines =
     (if current_question \<noteq> [] then questions @ [JObject current_question] else questions) @
     map (\<lambda>line. JObject [(''question'', JString line), (''speaker'', JString ''unknown''),
                           (''type'', JString ''general'')])
       (filter (\<lambda>line. CHR ''?'' \<in> set line \<and> 10 < length line) (map strip lines))"
proof (induction lines arbitrary: questions current_question)
  case Nil
  then show ?case by simp
next
  case (Cons raw lines)
  show ?case
  proof (cases "CHR ''?'' \<in> set (strip raw) \<and> 10 < length (strip raw)")
    case True
    then show ?thesis by (simp add: Cons.IH Let_def)
  next
    case False
    then have "parse_lines questions current_question (raw # lines) =
        parse_lines questions current_question lines"
      by (auto simp: Let_def)
    with False show ?thesis by (simp add: Cons.IH)
  qed
qed

text \<open>
  Claim C8 (manual fallback parser). For every response text,
  \<open>_parse_questions_manually\<close> returns exactly one record for each line that, after
  trimming, contains a question mark and has more than 10 characters, in the order of
  the lines; the record has the trimmed line as its question, speaker \<open>unknown\<close> and
  type \<open>general\<close>.
\<close>

theorem parse_questions_manually_lines:
  "parse_questions_manually response_text =
     map (\<lambda>line. JObject [(''question'', JString line), (''speaker'', JString ''unknown''),
                           (''type'', JString ''general'')])
       (filter (\<lambda>line. CHR ''?'' \<in> set line \<and> 10 < length line)
          (map strip (split_nl response_text)))"
  by (simp add: parse_questions_manually_def parse_lines_eq)


lemma ex1: "map strip (split_nl ''  What is your name?\<newline>ok\<newline>How do you handle stress?  '') =
   [''What is your name?'', ''ok'', ''How do you handle stress?'']"
  by (simp add: split_nl_def strip_def isspace_def)

theorem parse_questions_manually_lines_witness:
  "parse_questions_manually ''  What is your name?\<newline>ok\<newline>How do you handle stress?  '' =
     [JObject [(''question'', JString ''What is your name?''), (''speaker'', JString ''unknown''),
               (''type'', JString ''general'')],
      JObject [(''question'', JString ''How do you handle stress?''),
               (''speaker'', JString ''unknown''), (''type'', JString ''general'')]]"
  using parse_questions_manually_lines
    [of "''  What is your name?\<newline>ok\<newline>How do you handle stress?  ''"]
  by (simp add: ex1)

lemma from_chunk_returns:
  "\<exists>qs. generate_questions_from_chunk self og jl c = Inr qs"
  by (simp add: generate_questions_from_chunk_def split: sum.split)

lemma questions_loop_concat:
  "\<forall>c. \<exists>qs. f c = Inr qs \<Longrightarrow>
   questions_loop f acc cs =
     Inr (acc @ concat (map (\<lambda>c. case f c of Inr qs \<Rightarrow> qs | Inl e \<Rightarrow> []) cs))"
proof (induction cs arbitrary: acc)
  case Nil
  then show ?case by simp
next
  case (Cons c cs)
  from Cons.prems obtain qs where "f c = Inr qs" by blast
  with Cons show ?case by simp
qed

text \<open>
  Claim C9 (per-chunk failure isolation). If the model call raises for a chunk,
  \<open>generate_questions_from_chunk\<close> returns the empty list and raises nothing; and
  \<open>generate_questions\<close> always returns, with the questions of every chunk of the
  transcript in chunk order, those after a failed chunk included.
\<close>

theorem chunk_failure_isolated:
  "(og (OLLAMA_MODEL self) (prompt_format c) = Inl e \<longrightarrow>
      generate_questions_from_chunk self og jl c = Inr []) \<and>
   generate_questions self og jl t =
     Inr (concat (map (\<lambda>c. case generate_questions_from_chunk self og jl c of
                              Inr qs \<Rightarrow> qs | Inl e \<Rightarrow> [])
                   (chunk_text self t)))"
proof
  show "og (OLLAMA_MODEL self) (prompt_format c) = Inl e \<longrightarrow>
      generate_questions_from_chunk self og jl c = Inr []"
    by (simp add: generate_questions_from_chunk_def generate_body_def)
  show "generate_questions self og jl t =
     Inr (concat (map (\<lambda>c. case generate_questions_from_chunk self og jl c of
                              Inr qs \<Rightarrow> qs | Inl e \<Rightarrow> [])
                   (chunk_text self t)))"
    unfolding generate_questions_def
    using questions_loop_concat [of "generate_questions_from_chunk self og jl" "[]"]
      from_chunk_returns [of self og jl]
    by simp
qed

lemma grow_Nil: "grow label [] buckets = buckets"
  by (simp add: grow_def case_prod_unfold)

lemma fst_grow: "fst ` set (grow label qs buckets) = fst ` set buckets"
  by (force simp: grow_def)

lemma grow_Cons: "grow label (q # qs) buckets = grow label qs (grow label [q] buckets)"
  by (simp add: grow_def case_prod_unfold)

lemma bucket_append_Inr:
  assumes "bucket_append buckets (dict_get d key (JString dflt)) (JObject d) = Inr buckets'"
  shows "\<exists>k. field_label key dflt (JObject d) = Some k \<and> k \<in> fst ` set buckets \<and>
             buckets' = grow (field_label key dflt) [JObject d] buckets"
proof (cases "dict_get d key (JString dflt)")
  case (JString k)
  with assms have k: "k \<in> fst ` set buckets"
    and b: "buckets' = map (\<lambda>(k', qs). if k' = k then (k', qs @ [JObject d]) else (k', qs)) buckets"
    by (auto simp: bucket_append_def split: if_splits)
  have "buckets' = grow (field_label key dflt) [JObject d] buckets"
    unfolding b grow_def by (rule map_cong) (auto simp: field_label_def JString)
  with k JString show ?thesis by (simp add: field_label_def)
qed (use assms in \<open>simp_all add: bucket_append_def\<close>)

lemma bucket_append_ok:
  assumes "field_label key dflt (JObject d) = Some k" "k \<in> fst ` set buckets"
  shows "\<exists>buckets'. bucket_append buckets (dict_get d key (JString dflt)) (JObject d) = Inr buckets'"
  using assms by (auto simp: field_label_def bucket_append_def split: json.splits)

lemma categorize_Inr:
  "categorize org qs = Inr r \<Longrightarrow>
   by_speaker r = grow speaker_label qs (by_speaker org) \<and>
   by_type r = grow type_label qs (by_type org) \<and>
   all_questions r = all_questions org \<and> total_questions r = total_questions org \<and>
   video_name r = video_name org \<and>
   (\<forall>q \<in> set qs. \<exists>k \<in> fst ` set (by_speaker org). speaker_label q = Some k) \<and>
   (\<forall>q \<in> set qs. \<exists>k \<in> fst ` set (by_type org). type_label q = Some k)"
proof (induction qs arbitrary: org)
  case Nil
  then show ?case by (auto simp: grow_Nil)
next
  case (Cons q qs)
  from Cons.prems obtain d where q: "q = JObject d"
    by (cases q) simp_all
  from Cons.prems q obtain speakers where
    s: "bucket_append (by_speaker org) (dict_get d ''speaker'' (JString ''unknown'')) (JObject d) = Inr speakers"
    by (auto simp: Let_def split: sum.splits)
  from Cons.prems q s obtain types where
    t: "bucket_append (by_type org) (dict_get d ''type'' (JString ''general'')) (JObject d) = Inr types"
    by (auto simp: Let_def split: sum.splits)
  from Cons.prems q s t
  have rest: "categorize (org\<lparr>by_speaker := speakers, by_type := types\<rparr>) qs = Inr r"
    by (simp add: Let_def)
  from bucket_append_Inr [OF s] obtain ks where
    ks: "speaker_label q = Some ks" "ks \<in> fst ` set (by_speaker org)"
      "speakers = grow speaker_label [q] (by_speaker org)"
    by (auto simp: speaker_label_def q)
  from bucket_append_Inr [OF t] obtain kt where
    kt: "type_label q = Some kt" "kt \<in> fst ` set (by_type org)"
      "types = grow type_label [q] (by_type org)"
    by (auto simp: type_label_def q)
  from Cons.IH [OF rest] ks kt show ?case
    by (auto simp: fst_grow grow_Cons [of _ q qs])
qed

lemma categorize_ok:
  "\<forall>q \<in> set qs. (\<exists>k \<in> fst ` set (by_speaker org). speaker_label q = Some k) \<and>
                  (\<exists>k \<in> fst ` set (by_type org). type_label q = Some k) \<Longrightarrow>
   \<exists>r. categorize org qs = Inr r"
proof (induction qs arbitrary: org)
  case Nil
  then show ?case by simp
next
  case (Cons q qs)
  from Cons.prems obtain ks kt where
    ks: "speaker_label q = Some ks" "ks \<in> fst ` set (by_speaker org)" and
    kt: "type_label q = Some kt" "kt \<in> fst ` set (by_type org)"
    by auto
  from ks(1) obtain d where q: "q = JObject d"
    by (cases q) (simp_all add: speaker_label_def field_label_def)
  from bucket_append_ok [of "''speaker''" "''unknown''" d ks "by_speaker org"] ks q
  obtain speakers where
    s: "bucket_append (by_speaker org) (dict_get d ''speaker'' (JString ''unknown'')) (JObject d) = Inr speakers"
    by (auto simp: speaker_label_def)
  from bucket_append_ok [of "''type''" "''general''" d kt "by_type org"] kt q
  obtain types where
    t: "bucket_append (by_type org) (dict_get d ''type'' (JString ''general'')) (JObject d) = Inr types"
    by (auto simp: type_label_def)
  from bucket_append_Inr [OF s]
  have "speakers = grow (field_label ''speaker'' ''unknown'') [JObject d] (by_speaker org)"
    by blast
  then have fs: "fst ` set speakers = fst ` set (by_speaker org)"
    by (simp only: fst_grow)
  from bucket_append_Inr [OF t]
  have "types = grow (field_label ''type'' ''general'') [JObject d] (by_type org)"
    by blast
  then have ft: "fst ` set types = fst ` set (by_type org)"
    by (simp only: fst_grow)
  have "\<exists>r. categorize (org\<lparr>by_speaker := speakers, by_type := types\<rparr>) qs = Inr r"
    by (rule Cons.IH) (use Cons.prems fs ft in simp)
  with q s t show ?case by (simp add: Let_def)
qed

lemma three_filters:
  assumes "distinct [a, b, c]" "\<forall>q \<in> set qs. f q \<in> {a, b, c}"
  shows "length (filter (\<lambda>q. f q = a) qs) + length (filter (\<lambda>q. f q = b) qs) +
         length (filter (\<lambda>q. f q = c) qs) = length qs"
  using assms(2)
proof (induction qs)
  case Nil
  then show ?case by simp
next
  case (Cons q qs)
  then have "f q = a \<or> f q = b \<or> f q = c" by simp
  with Cons assms(1) show ?case by auto
qed

lemma organize_questions_Inr:
  assumes "organize_questions video_path questions = Inr r"
  shows "by_speaker r =
           [(''interviewer'', filter (\<lambda>q. speaker_label q = Some ''interviewer'') questions),
            (''interviewee'', filter (\<lambda>q. speaker_label q = Some ''interviewee'') questions),
            (''unknown'', filter (\<lambda>q. speaker_label q = Some ''unknown'') questions)]"
    and "by_type r =
           [(''technical'', filter (\<lambda>q. type_label q = Some ''technical'') questions),
            (''behavioral'', filter (\<lambda>q. type_label q = Some ''behavioral'') questions),
            (''general'', filter (\<lambda>q. type_label q = Some ''general'') questions)]"
    and "all_questions r = questions" and "total_questions r = length questions"
    and "video_name r = name video_path"
    and "\<forall>q \<in> set questions.
           speaker_label q \<in> {Some ''interviewer'', Some ''interviewee'', Some ''unknown''}"
    and "\<forall>q \<in> set questions.
           type_label q \<in> {Some ''technical'', Some ''behavioral'', Some ''general''}"
  using categorize_Inr [OF assms [unfolded organize_questions_def]]
  by (auto simp: grow_def)

lemma organize_questions_ok:
  assumes "\<forall>q \<in> set questions.
      speaker_label q \<in> {Some ''interviewer'', Some ''interviewee'', Some ''unknown''} \<and>
      type_label q \<in> {Some ''technical'', Some ''behavioral'', Some ''general''}"
  shows "\<exists>r. organize_questions video_path questions = Inr r"
  unfolding organize_questions_def
  by (rule categorize_ok) (use assms in auto)

text \<open>
  Claim C5 (report aggregation). Whenever \<open>save_questions\<close> builds its report
  (\<open>organize_questions\<close> is that part of it), the
  length of \<open>all_questions\<close>, \<open>total_questions\<close>, the sum of the bucket sizes of
  \<open>by_speaker\<close> and the sum of the bucket sizes of \<open>by_type\<close> are equal, and two
  buckets of a grouping under different labels share no record. The report is built,
  and written, for every list of question records: dictionaries whose speaker and type,
  where present, are among the three labels each.
\<close>

theorem report_aggregation:
  "(organize_questions video_path questions = Inr r \<longrightarrow>
      all_questions r = questions \<and>
      length (all_questions r) = total_questions r \<and>
      total_questions r = (\<Sum>(k, b)\<leftarrow>by_speaker r. length b) \<and>
      total_questions r = (\<Sum>(k, b)\<leftarrow>by_type r. length b) \<and>
      (\<forall>(k, b) \<in> set (by_speaker r). \<forall>(k', b') \<in> set (by_speaker r).
         k \<noteq> k' \<longrightarrow> set b \<inter> set b' = {}) \<and>
      (\<forall>(k, b) \<in> set (by_type r). \<forall>(k', b') \<in> set (by_type r).
         k \<noteq> k' \<longrightarrow> set b \<inter> set b' = {})) \<and>
   ((\<forall>q \<in> set questions.
       speaker_label q \<in> {Some ''interviewer'', Some ''interviewee'', Some ''unknown''} \<and>
       type_label q \<in> {Some ''technical'', Some ''behavioral'', Some ''general''}) \<longrightarrow>
    (\<exists>r p. organize_questions video_path questions = Inr r \<and>
       save_questions json_dump self video_path questions fs =
         (Inr p, fs(p \<mapsto> json_dump r))))"
proof (intro conjI impI)
  assume ok: "organize_questions video_path questions = Inr r"
  note o = organize_questions_Inr [OF ok]
  show "all_questions r = questions" by (rule o(3))
  show "length (all_questions r) = total_questions r" by (simp add: o(3,4))
  have "distinct [Some ''interviewer'', Some ''interviewee'', Some ''unknown'']" by simp
  from three_filters [OF this o(6)]
  show "total_questions r = (\<Sum>(k, b)\<leftarrow>by_speaker r. length b)"
    by (simp add: o(1,4))
  have "distinct [Some ''technical'', Some ''behavioral'', Some ''general'']" by simp
  from three_filters [OF this o(7)]
  show "total_questions r = (\<Sum>(k, b)\<leftarrow>by_type r. length b)"
    by (simp add: o(2,4))
  show "\<forall>(k, b) \<in> set (by_speaker r). \<forall>(k', b') \<in> set (by_speaker r).
         k \<noteq> k' \<longrightarrow> set b \<inter> set b' = {}"
    unfolding o(1) by auto
  show "\<forall>(k, b) \<in> set (by_type r). \<forall>(k', b') \<in> set (by_type r).
         k \<noteq> k' \<longrightarrow> set b \<inter> set b' = {}"
    unfolding o(2) by auto
next
  assume "\<forall>q \<in> set questions.
       speaker_label q \<in> {Some ''interviewer'', Some ''interviewee'', Some ''unknown''} \<and>
       type_label q \<in> {Some ''technical'', Some ''behavioral'', Some ''general''}"
  then obtain r where "organize_questions video_path questions = Inr r"
    using organize_questions_ok by blast
  then show "\<exists>r p. organize_questions video_path questions = Inr r \<and>
       save_questions json_dump self video_path questions fs =
         (Inr p, fs(p \<mapsto> json_dump r))"
    by (simp add: save_questions_def Let_def)
qed

lemma bucket_append_Inl:
  assumes "field_label key dflt (JObject d) = Some k"
    and "bucket_append buckets (dict_get d key (JString dflt)) (JObject d) = Inl e"
  shows "e = KeyError (JString k) \<and> k \<notin> fst ` set buckets"
  using assms
  by (auto simp: field_label_def bucket_append_def split: json.splits if_splits)

lemma categorize_Inl:
  "categorize org qs = Inl e \<Longrightarrow>
   \<forall>q \<in> set qs. speaker_label q \<noteq> None \<and> type_label q \<noteq> None \<Longrightarrow>
   \<exists>k. e = KeyError (JString k) \<and>
       (k \<notin> fst ` set (by_speaker org) \<or> k \<notin> fst ` set (by_type org))"
proof (induction qs arbitrary: org)
  case Nil
  then show ?case by simp
next
  case (Cons q qs)
  from Cons.prems(2) obtain ks kt where
    ks: "speaker_label q = Some ks" and kt: "type_label q = Some kt"
    by auto
  from ks obtain d where q: "q = JObject d"
    by (cases q) (simp_all add: speaker_label_def field_label_def)
  show ?case
  proof (cases "bucket_append (by_speaker org) (dict_get d ''speaker'' (JString ''unknown'')) (JObject d)")
    case (Inl e')
    with Cons.prems(1) q have "e' = e" by (simp add: Let_def)
    with bucket_append_Inl [OF ks [unfolded speaker_label_def q] Inl] show ?thesis by blast
  next
    case s: (Inr speakers)
    from bucket_append_Inr [OF s]
    have "speakers = grow (field_label ''speaker'' ''unknown'') [JObject d] (by_speaker org)"
      by blast
    then have fs: "fst ` set speakers = fst ` set (by_speaker org)"
      by (simp only: fst_grow)
    show ?thesis
    proof (cases "bucket_append (by_type org) (dict_get d ''type'' (JString ''general'')) (JObject d)")
      case (Inl e')
      with Cons.prems(1) q s have "e' = e" by (simp add: Let_def)
      with bucket_append_Inl [OF kt [unfolded type_label_def q] Inl] show ?thesis by blast
    next
      case t: (Inr types)
      from bucket_append_Inr [OF t]
      have "types = grow (field_label ''type'' ''general'') [JObject d] (by_type org)"
        by blast
      then have ft: "fst ` set types = fst ` set (by_type org)"
        by (simp only: fst_grow)
      from Cons.prems(1) q s t
      have "categorize (org\<lparr>by_speaker := speakers, by_type := types\<rparr>) qs = Inl e"
        by (simp add: Let_def)
      from Cons.IH [OF this] Cons.prems(2) fs ft show ?thesis by simp
    qed
  qed
qed

text \<open>
  Claim C10 (\<open>save_questions\<close> is partial). \<open>save_questions\<close> returns a file exactly
  when every question is a dictionary whose speaker and type, where present, are among
  the allowed labels. When it raises, no file is written; and for dictionaries whose
  speaker and type are strings the exception is a \<open>KeyError\<close> for a label outside its
  allow-list. A record with the speaker \<open>candidate\<close> makes it raise that \<open>KeyError\<close>.
\<close>

theorem save_questions_partial:
  "((\<exists>p. fst (save_questions json_dump self video_path questions fs) = Inr p) \<longleftrightarrow>
      (\<forall>q \<in> set questions.
         speaker_label q \<in> {Some ''interviewer'', Some ''interviewee'', Some ''unknown''} \<and>
         type_label q \<in> {Some ''technical'', Some ''behavioral'', Some ''general''})) \<and>
   (\<forall>e. fst (save_questions json_dump self video_path questions fs) = Inl e \<longrightarrow>
      snd (save_questions json_dump self video_path questions fs) = fs \<and>
      ((\<forall>q \<in> set questions. speaker_label q \<noteq> None \<and> type_label q \<noteq> None) \<longrightarrow>
       (\<exists>k. e = KeyError (JString k) \<and>
            (k \<notin> {''interviewer'', ''interviewee'', ''unknown''} \<or>
             k \<notin> {''technical'', ''behavioral'', ''general''})))) \<and>
   save_questions json_dump self video_path
     [JObject [(''question'', JString ''Why?''), (''speaker'', JString ''candidate''),
               (''type'', JString ''general'')]] fs =
     (Inl (KeyError (JString ''candidate'')), fs)"
proof (intro conjI allI impI)
  show "(\<exists>p. fst (save_questions json_dump self video_path questions fs) = Inr p) \<longleftrightarrow>
      (\<forall>q \<in> set questions.
         speaker_label q \<in> {Some ''interviewer'', Some ''interviewee'', Some ''unknown''} \<and>
         type_label q \<in> {Some ''technical'', Some ''behavioral'', Some ''general''})"
  proof
    assume "\<exists>p. fst (save_questions json_dump self video_path questions fs) = Inr p"
    then obtain r where "organize_questions video_path questions = Inr r"
      by (auto simp: save_questions_def Let_def split: sum.splits)
    from organize_questions_Inr(6,7) [OF this]
    show "\<forall>q \<in> set questions.
         speaker_label q \<in> {Some ''interviewer'', Some ''interviewee'', Some ''unknown''} \<and>
         type_label q \<in> {Some ''technical'', Some ''behavioral'', Some ''general''}"
      by simp
  next
    assume "\<forall>q \<in> set questions.
         speaker_label q \<in> {Some ''interviewer'', Some ''interviewee'', Some ''unknown''} \<and>
         type_label q \<in> {Some ''technical'', Some ''behavioral'', Some ''general''}"
    from organize_questions_ok [OF this, of video_path]
    show "\<exists>p. fst (save_questions json_dump self video_path questions fs) = Inr p"
      by (auto simp: save_questions_def Let_def)
  qed
next
  fix e
  assume e: "fst (save_questions json_dump self video_path questions fs) = Inl e"
  then show "snd (save_questions json_dump self video_path questions fs) = fs"
    by (auto simp: save_questions_def Let_def split: sum.splits)
  assume l: "\<forall>q \<in> set questions. speaker_label q \<noteq> None \<and> type_label q \<noteq> None"
  from e have "organize_questions video_path questions = Inl e"
    by (auto simp: save_questions_def Let_def split: sum.splits)
  from categorize_Inl [OF this [unfolded organize_questions_def] l]
  show "\<exists>k. e = KeyError (JString k) \<and>
            (k \<notin> {''interviewer'', ''interviewee'', ''unknown''} \<or>
             k \<notin> {''technical'', ''behavioral'', ''general''})"
    by simp
next
  show "save_questions json_dump self video_path
     [JObject [(''question'', JString ''Why?''), (''speaker'', JString ''candidate''),
               (''type'', JString ''general'')]] fs =
     (Inl (KeyError (JString ''candidate'')), fs)"
    by (simp add: save_questions_def organize_questions_def dict_get_def bucket_append_def Let_def)
qed

lemma organize_example:
  "organize_questions example_video [complete_question, bare_question] =
     Inr \<lparr>video_name = ''interview.mp4'', total_questions = 2,
          by_speaker = [(''interviewer'', [complete_question]), (''interviewee'', []),
                        (''unknown'', [bare_question])],
          by_type = [(''technical'', [complete_question]), (''behavioral'', []),
                     (''general'', [bare_question])],
          all_questions = [complete_question, bare_question]\<rparr>"
  by (simp add: organize_questions_def dict_get_def bucket_append_def name_def example_video_def
      complete_question_def bare_question_def Let_def)

theorem report_aggregation_witness:
  "list_all (\<lambda>q. speaker_label q \<in> {Some ''interviewer'', Some ''interviewee'', Some ''unknown''} \<and>
                  type_label q \<in> {Some ''technical'', Some ''behavioral'', Some ''general''})
     [complete_question, bare_question] \<and>
   organize_questions example_video [complete_question, bare_question] =
     Inr \<lparr>video_name = ''interview.mp4'', total_questions = 2,
          by_speaker = [(''interviewer'', [complete_question]), (''interviewee'', []),
                        (''unknown'', [bare_question])],
          by_type = [(''technical'', [complete_question]), (''behavioral'', []),
                     (''general'', [bare_question])],
          all_questions = [complete_question, bare_question]\<rparr> \<and>
   length [complete_question, bare_question] = 2 \<and>
   length [complete_question] + length ([] :: json list) + length [bare_question] = 2 \<and>
   set [complete_question] \<inter> set [bare_question] = {} \<and>
   save_questions example_dump (VideoProcessor_init [''videos'']) example_video
     [complete_question, bare_question] Map.empty =
     (Inr \<lparr>parent = [''videos'', ''questions''], stem = ''interview_questions'',
            suffix = ''.json''\<rparr>,
      [\<lparr>parent = [''videos'', ''questions''], stem = ''interview_questions'',
         suffix = ''.json''\<rparr> \<mapsto> ''interview.mp4''])"
proof -
  have l: "speaker_label complete_question = Some ''interviewer''"
    "speaker_label bare_question = Some ''unknown''"
    "type_label complete_question = Some ''technical''"
    "type_label bare_question = Some ''general''"
    by (simp_all add: speaker_label_def type_label_def field_label_def dict_get_def
        complete_question_def bare_question_def)
  have d: "complete_question \<noteq> bare_question"
    by (simp add: complete_question_def bare_question_def)
  have w: "save_questions example_dump (VideoProcessor_init [''videos'']) example_video
     [complete_question, bare_question] Map.empty =
     (Inr \<lparr>parent = [''videos'', ''questions''], stem = ''interview_questions'',
            suffix = ''.json''\<rparr>,
      [\<lparr>parent = [''videos'', ''questions''], stem = ''interview_questions'',
         suffix = ''.json''\<rparr> \<mapsto> ''interview.mp4''])"
    by (simp add: save_questions_def organize_example questions_dir_def
        VideoProcessor_init_def example_dump_def Let_def) (simp add: example_video_def)
  from report_aggregation [of example_video "[complete_question, bare_question]"
      "\<lparr>video_name = ''interview.mp4'', total_questions = 2,
          by_speaker = [(''interviewer'', [complete_question]), (''interviewee'', []),
                        (''unknown'', [bare_question])],
          by_type = [(''technical'', [complete_question]), (''behavioral'', []),
                     (''general'', [bare_question])],
          all_questions = [complete_question, bare_question]\<rparr>"
      example_dump "VideoProcessor_init [''videos'']" Map.empty]
  show ?thesis
    by (simp add: organize_example l d w)
qed

theorem save_questions_partial_witness:
  "speaker_label invented_question = Some ''candidate'' \<and>
   fst (save_questions example_dump (VideoProcessor_init [''videos'']) example_video
          [invented_question] Map.empty) = Inl (KeyError (JString ''candidate'')) \<and>
   snd (save_questions example_dump (VideoProcessor_init [''videos'']) example_video
          [invented_question] Map.empty) = Map.empty \<and>
   (\<exists>p. fst (save_questions example_dump (VideoProcessor_init [''videos'']) example_video
          [complete_question, bare_question] Map.empty) = Inr p)"
proof -
  have l: "speaker_label invented_question = Some ''candidate''"
    "speaker_label complete_question = Some ''interviewer''"
    "speaker_label bare_question = Some ''unknown''"
    "type_label complete_question = Some ''technical''"
    "type_label bare_question = Some ''general''"
    by (simp_all add: speaker_label_def type_label_def field_label_def dict_get_def
        invented_question_def complete_question_def bare_question_def)
  have a: "save_questions example_dump (VideoProcessor_init [''videos'']) example_video
          [invented_question] Map.empty = (Inl (KeyError (JString ''candidate'')), Map.empty)"
    using save_questions_partial [of example_dump "VideoProcessor_init [''videos'']" example_video
      "[invented_question]" Map.empty]
    by (simp add: invented_question_def)
  have b: "\<exists>p. fst (save_questions example_dump (VideoProcessor_init [''videos'']) example_video
          [complete_question, bare_question] Map.empty) = Inr p"
    using save_questions_partial [of example_dump "VideoProcessor_init [''videos'']" example_video
      "[complete_question, bare_question]" Map.empty]
    by (simp add: l)
  from a b l(1) show ?thesis by simp
qed

lemma small_chunks: "chunk_text small_processor ''aaaa bbbb cccc'' = [''aaaa'', ''bbbb'', ''cccc'']"
  by (simp add: chunk_text_def split_def isspace_def small_processor_def)

lemma manual_example:
  "parse_questions_manually ''Is this a question?'' =
     [JObject [(''question'', JString ''Is this a question?''), (''speaker'', JString ''unknown''),
               (''type'', JString ''general'')]]"
  by (simp add: parse_questions_manually_def split_nl_def strip_def isspace_def)

lemma from_chunk_example:
  "c \<noteq> ''bbbb'' \<Longrightarrow>
   generate_questions_from_chunk small_processor (failing_on ''bbbb'') loads_bare c =
     Inr [JObject [(''question'', JString ''Is this a question?''),
                   (''speaker'', JString ''unknown''), (''type'', JString ''general'')]]"
  by (simp add: generate_questions_from_chunk_def generate_body_def failing_on_def
      prompt_format_def json_match_def strip_def isspace_def manual_example)

theorem chunk_failure_isolated_witness:
  "failing_on ''bbbb'' (OLLAMA_MODEL small_processor) (prompt_format ''bbbb'') =
     Inl (Exception ''timed out'') \<and>
   generate_questions_from_chunk small_processor (failing_on ''bbbb'') loads_bare ''bbbb'' = Inr [] \<and>
   chunk_text small_processor ''aaaa bbbb cccc'' = [''aaaa'', ''bbbb'', ''cccc''] \<and>
   generate_questions small_processor (failing_on ''bbbb'') loads_bare ''aaaa bbbb cccc'' =
     Inr [JObject [(''question'', JString ''Is this a question?''),
                   (''speaker'', JString ''unknown''), (''type'', JString ''general'')],
          JObject [(''question'', JString ''Is this a question?''),
                   (''speaker'', JString ''unknown''), (''type'', JString ''general'')]]"
proof -
  have f: "failing_on ''bbbb'' (OLLAMA_MODEL small_processor) (prompt_format ''bbbb'') =
     Inl (Exception ''timed out'')"
    by (simp add: failing_on_def)
  from chunk_failure_isolated [of "failing_on ''bbbb''" small_processor "''bbbb''"
      "Exception ''timed out''" loads_bare "''aaaa bbbb cccc''"] f
  show ?thesis
    by (simp add: small_chunks from_chunk_example)
qed

lemma match_bare: "json_match (strip bare_response) = Some bare_response"
  by (simp add: json_match_def strip_def isspace_def bare_response_def)

lemma from_chunk_bare:
  "generate_questions_from_chunk self (\<lambda>model prompt. Inr bare_response) loads_bare c =
     Inr [bare_question]"
  by (simp add: generate_questions_from_chunk_def generate_body_def match_bare loads_bare_def)

text \<open>
  Claim C4 as stated fails: for a response whose span parses to a list with one record
  that has neither speaker nor type, the returned record has neither field; \<open>unknown\<close>
  and \<open>general\<close> are not put into it.
\<close>

theorem missing_fields_not_coerced:
  "generate_questions_from_chunk (VideoProcessor_init [''videos''])
     (\<lambda>model prompt. Inr bare_response) loads_bare ''Why?'' = Inr [bare_question] \<and>
   bare_question = JObject [(''question'', JString ''Why?'')] \<and>
   map_of [(''question'', JString ''Why?'')] ''speaker'' = None \<and>
   map_of [(''question'', JString ''Why?'')] ''type'' = None \<and>
   generate_questions_from_chunk (VideoProcessor_init [''videos''])
     (\<lambda>model prompt. Inr bare_response) loads_bare ''Why?'' \<noteq>
   Inr [JObject [(''question'', JString ''Why?''), (''speaker'', JString ''unknown''),
                 (''type'', JString ''general'')]]"
  by (simp add: from_chunk_bare) (simp add: bare_question_def)

text \<open>
  Claim C4, amended (missing fields). When the extracted bracket span parses as a JSON
  list, \<open>generate_questions_from_chunk\<close> returns exactly the elements of that list,
  unchanged: nothing is fabricated and no field is added. A missing speaker or type is
  replaced by \<open>unknown\<close> or \<open>general\<close> only where \<open>save_questions\<close> chooses the
  bucket: a record without speaker is filed under \<open>unknown\<close>, one without type under
  \<open>general\<close>, and the record filed is the record as it came.
\<close>

theorem parsed_list_returned_as_is:
  "(og (OLLAMA_MODEL self) (prompt_format c) = Inr response \<and>
    json_match (strip response) = Some json_text \<and> jl json_text = Inr (JArray qs) \<longrightarrow>
      generate_questions_from_chunk self og jl c = Inr qs) \<and>
   (organize_questions video_path questions = Inr r \<longrightarrow>
      all_questions r = questions \<and>
      (\<exists>b. map_of (by_speaker r) ''unknown'' = Some b \<and>
           (\<forall>d. JObject d \<in> set questions \<and> map_of d ''speaker'' = None \<longrightarrow>
                JObject d \<in> set b)) \<and>
      (\<exists>b. map_of (by_type r) ''general'' = Some b \<and>
           (\<forall>d. JObject d \<in> set questions \<and> map_of d ''type'' = None \<longrightarrow>
                JObject d \<in> set b)))"
proof (intro conjI impI)
  assume "og (OLLAMA_MODEL self) (prompt_format c) = Inr response \<and>
    json_match (strip response) = Some json_text \<and> jl json_text = Inr (JArray qs)"
  then show "generate_questions_from_chunk self og jl c = Inr qs"
    by (simp add: generate_questions_from_chunk_def generate_body_def)
next
  assume ok: "organize_questions video_path questions = Inr r"
  note o = organize_questions_Inr [OF ok]
  show "all_questions r = questions" by (rule o(3))
  have s: "speaker_label (JObject d) = Some ''unknown''" if "map_of d ''speaker'' = None" for d
    using that by (simp add: speaker_label_def field_label_def dict_get_def)
  have t: "type_label (JObject d) = Some ''general''" if "map_of d ''type'' = None" for d
    using that by (simp add: type_label_def field_label_def dict_get_def)
  show "\<exists>b. map_of (by_speaker r) ''unknown'' = Some b \<and>
           (\<forall>d. JObject d \<in> set questions \<and> map_of d ''speaker'' = None \<longrightarrow>
                JObject d \<in> set b)"
    by (simp add: o(1) s)
  show "\<exists>b. map_of (by_type r) ''general'' = Some b \<and>
           (\<forall>d. JObject d \<in> set questions \<and> map_of d ''type'' = None \<longrightarrow>
                JObject d \<in> set b)"
    by (simp add: o(2) t)
qed

theorem parsed_list_returned_as_is_witness:
  "json_match (strip bare_response) = Some bare_response \<and>
   loads_bare bare_response = Inr (JArray [bare_question]) \<and>
   generate_questions_from_chunk (VideoProcessor_init [''videos''])
     (\<lambda>model prompt. Inr bare_response) loads_bare ''Why?'' = Inr [bare_question] \<and>
   organize_questions example_video [complete_question, bare_question] =
     Inr \<lparr>video_name = ''interview.mp4'', total_questions = 2,
          by_speaker = [(''interviewer'', [complete_question]), (''interviewee'', []),
                        (''unknown'', [bare_question])],
          by_type = [(''technical'', [complete_question]), (''behavioral'', []),
                     (''general'', [bare_question])],
          all_questions = [complete_question, bare_question]\<rparr> \<and>
   bare_question = JObject [(''question'', JString ''Why?'')] \<and>
   map_of [(''question'', JString ''Why?'')] ''speaker'' = None \<and>
   map_of [(''question'', JString ''Why?'')] ''type'' = None"
  using parsed_list_returned_as_is [of "\<lambda>model prompt. Inr bare_response"
      "VideoProcessor_init [''videos'']" "''Why?''" bare_response bare_response loads_bare
      "[bare_question]" example_video "[complete_question, bare_question]"
      "\<lparr>video_name = ''interview.mp4'', total_questions = 2,
        by_speaker = [(''interviewer'', [complete_question]), (''interviewee'', []),
                      (''unknown'', [bare_question])],
        by_type = [(''technical'', [complete_question]), (''behavioral'', []),
                   (''general'', [bare_question])],
        all_questions = [complete_question, bare_question]\<rparr>"]
  by (simp add: match_bare loads_bare_def organize_example) (simp add: bare_question_def)

lemma match_prose: "json_match (strip prose_response) = Some ''[from the transcript]''"
  by (simp add: json_match_def strip_def isspace_def prose_response_def)

lemma manual_prose:
  "parse_questions_manually (strip prose_response) =
     [JObject [(''question'', JString ''What is your programming experience?''),
               (''speaker'', JString ''unknown''), (''type'', JString ''general'')]]"
  by (simp add: parse_questions_manually_def split_nl_def strip_def isspace_def
      prose_response_def)

text \<open>
  Claim C3 (fallback on JSON failure), at a failing input. The response has the span
  \<open>[from the transcript]\<close>, which is not JSON, so \<open>json.loads\<close> raises
  \<open>JSONDecodeError\<close>. \<open>generate_questions_from_chunk\<close> returns the empty list, while
  the manual parser finds one question in the same response: the fallback is not taken.
\<close>

theorem json_failure_returns_nothing:
  "json_match (strip prose_response) = Some ''[from the transcript]'' \<and>
   generate_questions_from_chunk (VideoProcessor_init [''videos''])
     (\<lambda>model prompt. Inr prose_response) (\<lambda>json_text. Inl JSONDecodeError) ''chunk'' = Inr [] \<and>
   parse_questions_manually (strip prose_response) =
     [JObject [(''question'', JString ''What is your programming experience?''),
               (''speaker'', JString ''unknown''), (''type'', JString ''general'')]]"
  by (simp add: generate_questions_from_chunk_def generate_body_def match_prose manual_prose)

text \<open>
  Claim C2 (scratch file cleanup), at a failing input. The audio export writes the
  scratch file and returns, and the recognizer raises. \<open>transcribe_video\<close> raises the
  same exception and the scratch file \<open>interview.wav\<close> is still there.
\<close>

theorem failed_recognition_keeps_scratch_file:
  "transcribe_video (\<lambda>video_path audio_path fs. (Inr (), fs(audio_path \<mapsto> ''audio'')))
     (\<lambda>audio_path fs. Inl (Exception ''recognition failed'')) example_video Map.empty =
     (Inl (Exception ''recognition failed''),
      [\<lparr>parent = [''videos''], stem = ''interview'', suffix = ''.wav''\<rparr> \<mapsto> ''audio''])"
  by (simp add: transcribe_video_def with_suffix_def example_video_def)

lemma transcribe_ok_unlinks:
  "transcribe_video (\<lambda>video_path audio_path fs. (Inr (), fs(audio_path \<mapsto> ''audio'')))
     (\<lambda>audio_path fs. Inr '' Hello there '') example_video Map.empty =
     (Inr ''Hello there'', Map.empty)"
  by (simp add: transcribe_video_def with_suffix_def example_video_def unlink_def strip_def isspace_def)

end
